theory Spec2Isabelle
  imports Main "HOL-Library.Word"
begin

section \<open>Basic types\<close>

text \<open>
  The symbolic identifiers of the package are Go string types.  Go's \<open>int\<close> is a
  two's-complement machine integer; it is modelled at the width of the 64-bit targets,
  so \<open>+\<close> wraps, and \<open>sint\<close> reads the value the program sees.
\<close>

type_synonym AggregateType = string
type_synonym EventType = string
type_synonym CommandType = string
type_synonym go_int = "64 word"

text \<open>
  Modelled from the spec: the declaration of \<open>UUID\<close> is not among the sources; the spec
  calls it an opaque identifier of an aggregate instance.  It is taken as a string, whose
  zero value is the empty string.
\<close>

type_synonym UUID = string

text \<open>
  Modelled from the spec: \<open>time.Time\<close> belongs to Go's standard library.  An instant is
  its distance from the zero instant, and \<open>IsZero\<close> recognises the zero instant.  The
  clock is not part of the program: every function that reads it takes the reading as
  an argument \<open>now\<close>.
\<close>

type_synonym Time = int

definition IsZero :: "Time \<Rightarrow> bool" where
  "IsZero t = (t = 0)"

text \<open>Go's \<open>error\<close> values that the sources create or compare against.\<close>

datatype error = ErrEventDataNotRegistered | errors_New string


section \<open>Events\<close>

text \<open>
  Modelled from the spec: the file declaring the struct \<open>event\<close>, the constructor
  \<open>NewEvent\<close> and the methods of \<open>event\<close> is not among the sources.  The spec gives
  the fields as \<open>{eventType, data, aggregateType, aggregateID, version, timestamp}\<close>, and
  \<open>AggregateBase.NewEvent\<close> assigns \<open>aggregateType\<close>, \<open>aggregateID\<close> and \<open>version\<close>.
  The payload is Go's empty interface; its type is the parameter \<open>'d\<close>.
\<close>

record 'd event =
  eventType :: EventType
  data :: 'd
  timestamp :: Time
  aggregateType :: AggregateType
  aggregateID :: UUID
  version :: go_int

text \<open>
  A value of the interface \<open>Event\<close> has a dynamic type: either the struct \<open>event\<close>, or
  another implementation, which is described by what its methods return.  The type
  assertion \<open>e.(event)\<close> of \<open>AggregateBase.NewEvent\<close> succeeds on the first only.
\<close>

datatype 'd Event = EventStruct "'d event" | EventForeign "'d event"

fun fields :: "'d Event \<Rightarrow> 'd event" where
  "fields (EventStruct r) = r"
| "fields (EventForeign r) = r"

definition Event_EventType :: "'d Event \<Rightarrow> EventType" where
  "Event_EventType e = eventType (fields e)"

definition Event_Data :: "'d Event \<Rightarrow> 'd" where
  "Event_Data e = data (fields e)"

definition Event_Timestamp :: "'d Event \<Rightarrow> Time" where
  "Event_Timestamp e = timestamp (fields e)"

definition Event_AggregateType :: "'d Event \<Rightarrow> AggregateType" where
  "Event_AggregateType e = event.aggregateType (fields e)"

definition Event_AggregateID :: "'d Event \<Rightarrow> UUID" where
  "Event_AggregateID e = aggregateID (fields e)"

definition Event_Version :: "'d Event \<Rightarrow> go_int" where
  "Event_Version e = event.version (fields e)"

text \<open>Decimal rendering of an integer, as the verb \<open>%d\<close> prints it.\<close>

function decimal :: "nat \<Rightarrow> string" where
  "decimal n =
     (if n < 10 then [''0123456789'' ! n]
      else decimal (n div 10) @ [''0123456789'' ! (n mod 10)])"
  by pat_completeness auto
termination
  by (relation "measure (\<lambda>n. n)") auto

declare decimal.simps [simp del]

definition itoa :: "int \<Rightarrow> string" where
  "itoa i = (if i < 0 then CHR ''-'' # decimal (nat (- i)) else decimal (nat i))"

text \<open>
  Modelled from the spec: \<open>Event.String()\<close> renders as \<open>"<type>@<version>"\<close>.
\<close>

definition Event_String :: "'d Event \<Rightarrow> string" where
  "Event_String e = Event_EventType e @ ''@'' @ itoa (sint (Event_Version e))"

text \<open>
  Modelled from the spec: the top-level \<open>NewEvent(type, data)\<close> stamps the current
  timestamp, sets the version to 0 and leaves the aggregate linkage unset (the zero
  values of its fields).
\<close>

definition NewEvent :: "EventType \<Rightarrow> 'd \<Rightarrow> Time \<Rightarrow> 'd Event" where
  "NewEvent t d now =
     EventStruct \<lparr>eventType = t, data = d, timestamp = now,
                  aggregateType = [], aggregateID = [], version = 0\<rparr>"


section \<open>The registry of event payload constructors\<close>

text \<open>
  Modelled from the spec: \<open>RegisterEventData\<close>, \<open>CreateEventData\<close> and the registry they
  share are not among the sources.  The registry maps an event type to a constructor
  of payloads.  A registration either panics, and then leaves the registry as it was,
  or stores the constructor; the result is the panic, if any, and the registry
  afterwards.
\<close>

type_synonym 'd eventDataFactories = "EventType \<rightharpoonup> (unit \<Rightarrow> 'd)"

datatype panic = RegisterEmptyEventType | RegisterDuplicateTypes EventType

definition RegisterEventData ::
  "'d eventDataFactories \<Rightarrow> EventType \<Rightarrow> (unit \<Rightarrow> 'd) \<Rightarrow> panic option \<times> 'd eventDataFactories"
where
  "RegisterEventData reg t factory =
     (if t = [] then (Some RegisterEmptyEventType, reg)
      else if reg t \<noteq> None then (Some (RegisterDuplicateTypes t), reg)
      else (None, reg(t \<mapsto> factory)))"

definition CreateEventData :: "'d eventDataFactories \<Rightarrow> EventType \<Rightarrow> error + 'd" where
  "CreateEventData reg t =
     (case reg t of
        Some factory \<Rightarrow> Inr (factory ())
      | None \<Rightarrow> Inl ErrEventDataNotRegistered)"


section \<open>The aggregate base\<close>

record 'd AggregateBase =
  aggregateType :: AggregateType
  id' :: UUID
  version :: go_int
  uncommittedEvents :: "'d Event list"

text \<open>
  The methods have pointer receivers.  A method that returns nothing is a function from
  the receiver's state to its state afterwards; a method that returns a value yields
  the value together with the receiver's state afterwards.
\<close>

definition NewAggregateBase :: "AggregateType \<Rightarrow> UUID \<Rightarrow> 'd AggregateBase" where
  "NewAggregateBase t i =
     \<lparr>aggregateType = t, id' = i, version = 0, uncommittedEvents = []\<rparr>"

definition AggregateBase_AggregateType ::
  "'d AggregateBase \<Rightarrow> AggregateType \<times> 'd AggregateBase" where
  "AggregateBase_AggregateType a = (AggregateBase.aggregateType a, a)"

definition AggregateBase_AggregateID :: "'d AggregateBase \<Rightarrow> UUID \<times> 'd AggregateBase" where
  "AggregateBase_AggregateID a = (id' a, a)"

definition AggregateBase_Version :: "'d AggregateBase \<Rightarrow> go_int \<times> 'd AggregateBase" where
  "AggregateBase_Version a = (AggregateBase.version a, a)"

definition IncrementVersion :: "'d AggregateBase \<Rightarrow> 'd AggregateBase" where
  "IncrementVersion a = a\<lparr>AggregateBase.version := AggregateBase.version a + 1\<rparr>"

definition AggregateBase_NewEvent ::
  "'d AggregateBase \<Rightarrow> EventType \<Rightarrow> 'd \<Rightarrow> Time \<Rightarrow> 'd Event \<times> 'd AggregateBase" where
  "AggregateBase_NewEvent a t d now =
     (let e = NewEvent t d now in
      case e of
        EventStruct r \<Rightarrow>
          (let r1 = r\<lparr>event.aggregateType := AggregateBase.aggregateType a\<rparr>;
               r2 = r1\<lparr>aggregateID := id' a\<rparr>;
               (v, a1) = AggregateBase_Version a;
               r3 = r2\<lparr>event.version := v + 1\<rparr>
           in (EventStruct r3, a1))
      | EventForeign _ \<Rightarrow> (e, a))"

definition StoreEvent :: "'d AggregateBase \<Rightarrow> 'd Event \<Rightarrow> 'd AggregateBase" where
  "StoreEvent a e = a\<lparr>uncommittedEvents := uncommittedEvents a @ [e]\<rparr>"

definition UncommittedEvents :: "'d AggregateBase \<Rightarrow> 'd Event list \<times> 'd AggregateBase" where
  "UncommittedEvents a = (uncommittedEvents a, a)"

definition ClearUncommittedEvents :: "'d AggregateBase \<Rightarrow> 'd AggregateBase" where
  "ClearUncommittedEvents a = a\<lparr>uncommittedEvents := []\<rparr>"


section \<open>The aggregates, commands and payloads of the tests\<close>

definition TestAggregateType :: AggregateType where "TestAggregateType = ''TestAggregate''"
definition TestAggregate2Type :: AggregateType where "TestAggregate2Type = ''TestAggregate2''"
definition TestEventType :: EventType where "TestEventType = ''TestEvent''"
definition TestEvent2Type :: EventType where "TestEvent2Type = ''TestEvent2''"
definition TestEventRegisterType :: EventType where "TestEventRegisterType = ''TestEventRegister''"
definition TestEventRegisterEmptyType :: EventType where "TestEventRegisterEmptyType = []"
definition TestEventRegisterTwiceType :: EventType where
  "TestEventRegisterTwiceType = ''TestEventRegisterTwice''"

text \<open>The payload structs of the tests; each carries the fields of its struct.\<close>

datatype EventData =
    TestEventData string
  | TestEvent2Data string
  | TestEventRegister
  | TestEventRegisterEmpty
  | TestEventRegisterTwice

record TestCommand =
  TestID :: UUID
  Content :: string

record TestCommand2 =
  TestID :: UUID
  Content :: string

text \<open>
  A value of the interface \<open>Command\<close>.  Both structs implement it with value receivers,
  so a struct and a pointer to one are both commands; the type switches of
  \<open>HandleCommand\<close> match the pointers only.  Nil pointers are not represented.
\<close>

datatype Command =
    PtrTestCommand TestCommand
  | PtrTestCommand2 TestCommand2
  | ValTestCommand TestCommand
  | ValTestCommand2 TestCommand2

record TestAggregate =
  AggregateBase :: "EventData AggregateBase"
  dispatchedCommand :: "Command option"
  appliedEvent :: "EventData Event option"
  numHandled :: go_int

definition NewTestAggregate :: "UUID \<Rightarrow> TestAggregate" where
  "NewTestAggregate i =
     \<lparr>TestAggregate.AggregateBase = NewAggregateBase TestAggregateType i,
      TestAggregate.dispatchedCommand = None, TestAggregate.appliedEvent = None,
      TestAggregate.numHandled = 0\<rparr>"

definition TestAggregate_HandleCommand ::
  "TestAggregate \<Rightarrow> Command \<Rightarrow> Time \<Rightarrow> error option \<times> TestAggregate" where
  "TestAggregate_HandleCommand a command now =
     (let a1 = a\<lparr>TestAggregate.dispatchedCommand := Some command\<rparr>;
          a2 = a1\<lparr>TestAggregate.numHandled := TestAggregate.numHandled a1 + 1\<rparr>
      in case command of
           PtrTestCommand c \<Rightarrow>
             if TestCommand.Content c = ''error''
             then (Some (errors_New ''command error''), a2)
             else
               (let (e, b1) = AggregateBase_NewEvent (TestAggregate.AggregateBase a2)
                                TestEventType (TestEventData (TestCommand.Content c)) now;
                    b2 = StoreEvent b1 e
                in (None, a2\<lparr>TestAggregate.AggregateBase := b2\<rparr>))
         | _ \<Rightarrow> (Some (errors_New ''couldn't handle command''), a2))"

text \<open>The deferred \<open>IncrementVersion\<close> runs when the body has finished.\<close>

definition TestAggregate_ApplyEvent :: "TestAggregate \<Rightarrow> EventData Event \<Rightarrow> TestAggregate" where
  "TestAggregate_ApplyEvent a e =
     (let a1 = a\<lparr>TestAggregate.appliedEvent := Some e\<rparr>
      in a1\<lparr>TestAggregate.AggregateBase :=
              IncrementVersion (TestAggregate.AggregateBase a1)\<rparr>)"

record TestAggregate2 =
  AggregateBase :: "EventData AggregateBase"
  dispatchedCommand :: "Command option"
  appliedEvent :: "EventData Event option"
  numHandled :: go_int

definition NewTestAggregate2 :: "UUID \<Rightarrow> TestAggregate2" where
  "NewTestAggregate2 i =
     \<lparr>TestAggregate2.AggregateBase = NewAggregateBase TestAggregate2Type i,
      TestAggregate2.dispatchedCommand = None, TestAggregate2.appliedEvent = None,
      TestAggregate2.numHandled = 0\<rparr>"

definition TestAggregate2_HandleCommand ::
  "TestAggregate2 \<Rightarrow> Command \<Rightarrow> Time \<Rightarrow> error option \<times> TestAggregate2" where
  "TestAggregate2_HandleCommand a command now =
     (let a1 = a\<lparr>TestAggregate2.dispatchedCommand := Some command\<rparr>;
          a2 = a1\<lparr>TestAggregate2.numHandled := TestAggregate2.numHandled a1 + 1\<rparr>
      in case command of
           PtrTestCommand2 c \<Rightarrow>
             if TestCommand2.Content c = ''error''
             then (Some (errors_New ''command error''), a2)
             else
               (let (e, b1) = AggregateBase_NewEvent (TestAggregate2.AggregateBase a2)
                                TestEventType (TestEvent2Data (TestCommand2.Content c)) now;
                    b2 = StoreEvent b1 e
                in (None, a2\<lparr>TestAggregate2.AggregateBase := b2\<rparr>))
         | _ \<Rightarrow> (Some (errors_New ''couldn't handle command''), a2))"

definition TestAggregate2_ApplyEvent ::
  "TestAggregate2 \<Rightarrow> EventData Event \<Rightarrow> TestAggregate2" where
  "TestAggregate2_ApplyEvent a e = a\<lparr>TestAggregate2.appliedEvent := Some e\<rparr>"

text \<open>The registrations of event payloads that the tests' \<open>init\<close> performs, in order.\<close>

definition init_eventDataFactories :: "EventData eventDataFactories" where
  "init_eventDataFactories =
     (let r1 = snd (RegisterEventData Map.empty TestEventType (\<lambda>_. TestEventData []))
      in snd (RegisterEventData r1 TestEvent2Type (\<lambda>_. TestEvent2Data [])))"

text \<open>
  The zero value of a payload struct of the tests: every field holds the zero value of
  its type.  The constructors that the sources register build such payloads.
\<close>

definition zero_valued :: "EventData \<Rightarrow> bool" where
  "zero_valued d =
     (case d of TestEventData c \<Rightarrow> c = [] | TestEvent2Data c \<Rightarrow> c = [] | _ \<Rightarrow> True)"



section \<open>Properties of the aggregate base\<close>

lemma AggregateBase_NewEvent_eq:
  "AggregateBase_NewEvent a t d now =
     (EventStruct \<lparr>eventType = t, data = d, timestamp = now,
                   aggregateType = AggregateBase.aggregateType a, aggregateID = id' a,
                   version = AggregateBase.version a + 1\<rparr>, a)"
  by (simp add: AggregateBase_NewEvent_def NewEvent_def AggregateBase_Version_def)

lemma IncrementVersion_version:
  "AggregateBase.version (IncrementVersion a) = AggregateBase.version a + 1"
  by (simp add: IncrementVersion_def)

text \<open>
  Claim C2.  For an aggregate base \<open>a\<close> at version \<open>v\<close>, \<open>a.NewEvent(type, data)\<close>
  returns an event that carries the aggregate type of \<open>a\<close>, the ID of \<open>a\<close> and the
  version \<open>v + 1\<close> (Go's addition), together with the given event type and payload.
  Hence a second event created by \<open>a.NewEvent\<close> with no \<open>IncrementVersion\<close> in between,
  whether or not the first one was stored, carries the same version as the first.
\<close>

theorem AggregateBase_NewEvent_stamps:
  "Event_AggregateType (fst (AggregateBase_NewEvent a t d now)) = fst (AggregateBase_AggregateType a)
   \<and> Event_AggregateID (fst (AggregateBase_NewEvent a t d now)) = fst (AggregateBase_AggregateID a)
   \<and> Event_Version (fst (AggregateBase_NewEvent a t d now)) = fst (AggregateBase_Version a) + 1
   \<and> Event_EventType (fst (AggregateBase_NewEvent a t d now)) = t
   \<and> Event_Data (fst (AggregateBase_NewEvent a t d now)) = d
   \<and> Event_Version (fst (AggregateBase_NewEvent (snd (AggregateBase_NewEvent a t d now)) t' d' now'))
       = Event_Version (fst (AggregateBase_NewEvent a t d now))
   \<and> Event_Version (fst (AggregateBase_NewEvent
         (StoreEvent (snd (AggregateBase_NewEvent a t d now)) (fst (AggregateBase_NewEvent a t d now)))
         t' d' now'))
       = Event_Version (fst (AggregateBase_NewEvent a t d now))"
  by (simp add: AggregateBase_NewEvent_eq Event_AggregateType_def Event_AggregateID_def
      Event_Version_def Event_EventType_def Event_Data_def AggregateBase_AggregateType_def
      AggregateBase_AggregateID_def AggregateBase_Version_def StoreEvent_def)

text \<open>
  Below the largest value of Go's \<open>int\<close> the addition does not wrap: the number the event
  carries is the successor of the number the aggregate carries.
\<close>

lemma AggregateBase_NewEvent_version_sint:
  assumes "sint (fst (AggregateBase_Version a)) < 2 ^ 63 - 1"
  shows "sint (Event_Version (fst (AggregateBase_NewEvent a t d now)))
           = sint (fst (AggregateBase_Version a)) + 1"
proof -
  let ?v = "AggregateBase.version a"
  have lo: "- (2 ^ 63) \<le> sint ?v" using sint_ge [of ?v] by simp
  have hi: "sint ?v + 1 < 2 ^ 63" using assms by (simp add: AggregateBase_Version_def)
  have "sint (?v + 1) = signed_take_bit 63 (sint ?v + 1)"
    by (simp add: sint_word_ariths)
  also have "\<dots> = sint ?v + 1"
    using lo hi by (intro signed_take_bit_int_eq_self) simp_all
  finally have "sint (?v + 1) = sint ?v + 1" .
  then show ?thesis
    by (simp add: AggregateBase_NewEvent_eq Event_Version_def AggregateBase_Version_def)
qed

text \<open>
  Claim C6.  \<open>a.StoreEvent(e)\<close> appends \<open>e\<close> at the end of the uncommitted buffer:
  \<open>UncommittedEvents()\<close> afterwards is the previous sequence followed by \<open>e\<close>.  No other
  field of \<open>a\<close> changes: the version, the aggregate type and the ID are as before, so the
  event is stored without being applied.
\<close>

theorem StoreEvent_appends:
  "fst (UncommittedEvents (StoreEvent a e)) = fst (UncommittedEvents a) @ [e]
   \<and> fst (AggregateBase_Version (StoreEvent a e)) = fst (AggregateBase_Version a)
   \<and> fst (AggregateBase_AggregateType (StoreEvent a e)) = fst (AggregateBase_AggregateType a)
   \<and> fst (AggregateBase_AggregateID (StoreEvent a e)) = fst (AggregateBase_AggregateID a)
   \<and> StoreEvent a e = a\<lparr>uncommittedEvents := uncommittedEvents a @ [e]\<rparr>"
  by (simp add: StoreEvent_def UncommittedEvents_def AggregateBase_Version_def
      AggregateBase_AggregateType_def AggregateBase_AggregateID_def)

text \<open>
  Claim C7.  In any state of \<open>a\<close>, after \<open>a.ClearUncommittedEvents()\<close> the call
  \<open>a.UncommittedEvents()\<close> returns the empty sequence, and the aggregate type, the ID and
  the version of \<open>a\<close> are unchanged.
\<close>

theorem ClearUncommittedEvents_empties:
  "fst (UncommittedEvents (ClearUncommittedEvents a)) = []
   \<and> fst (AggregateBase_AggregateType (ClearUncommittedEvents a)) = fst (AggregateBase_AggregateType a)
   \<and> fst (AggregateBase_AggregateID (ClearUncommittedEvents a)) = fst (AggregateBase_AggregateID a)
   \<and> fst (AggregateBase_Version (ClearUncommittedEvents a)) = fst (AggregateBase_Version a)"
  by (simp add: ClearUncommittedEvents_def UncommittedEvents_def AggregateBase_Version_def
      AggregateBase_AggregateType_def AggregateBase_AggregateID_def)

text \<open>
  Claim C8.  \<open>NewAggregateBase(t, id)\<close> returns an aggregate at version 0 with an empty
  uncommitted buffer, whose \<open>AggregateType()\<close> is \<open>t\<close> and whose \<open>AggregateID()\<close> is
  \<open>id\<close>; and on any aggregate the three accessors \<open>AggregateType()\<close>, \<open>AggregateID()\<close>
  and \<open>Version()\<close> leave the receiver as it was.
\<close>

theorem NewAggregateBase_fresh:
  "fst (AggregateBase_Version (NewAggregateBase t i)) = 0
   \<and> fst (UncommittedEvents (NewAggregateBase t i)) = []
   \<and> fst (AggregateBase_AggregateType (NewAggregateBase t i)) = t
   \<and> fst (AggregateBase_AggregateID (NewAggregateBase t i)) = i
   \<and> snd (AggregateBase_AggregateType a) = a
   \<and> snd (AggregateBase_AggregateID a) = a
   \<and> snd (AggregateBase_Version a) = a"
  by (simp add: NewAggregateBase_def UncommittedEvents_def AggregateBase_Version_def
      AggregateBase_AggregateType_def AggregateBase_AggregateID_def)

text \<open>
  Claim C10.  \<open>a.NewEvent(type, data)\<close> leaves \<open>a\<close> entirely unchanged: the uncommitted
  buffer and the version are as before, and so is every other field.  The created event
  enters the buffer only through a separate \<open>StoreEvent\<close>, which puts it at the end.
\<close>

theorem AggregateBase_NewEvent_frame:
  "snd (AggregateBase_NewEvent a t d now) = a
   \<and> fst (UncommittedEvents (snd (AggregateBase_NewEvent a t d now))) = fst (UncommittedEvents a)
   \<and> fst (AggregateBase_Version (snd (AggregateBase_NewEvent a t d now))) = fst (AggregateBase_Version a)
   \<and> fst (UncommittedEvents (StoreEvent (snd (AggregateBase_NewEvent a t d now))
                                 (fst (AggregateBase_NewEvent a t d now))))
       = fst (UncommittedEvents a) @ [fst (AggregateBase_NewEvent a t d now)]"
  by (simp add: AggregateBase_NewEvent_eq UncommittedEvents_def StoreEvent_def)

section \<open>Properties of events\<close>

text \<open>
  Claim C9.  The top-level \<open>NewEvent(t, d)\<close> returns an event whose \<open>EventType()\<close> is
  \<open>t\<close>, whose \<open>Data()\<close> is \<open>d\<close>, whose \<open>Version()\<close> is 0, whose \<open>Timestamp()\<close> is the
  clock's reading at the call, which is not the zero instant whenever the reading is
  not, whose aggregate type and aggregate ID are unset, and whose \<open>String()\<close> is the
  event type followed by \<open>@0\<close>.
\<close>

theorem NewEvent_fields:
  "Event_EventType (NewEvent t d now) = t
   \<and> Event_Data (NewEvent t d now) = d
   \<and> Event_Version (NewEvent t d now) = 0
   \<and> Event_Timestamp (NewEvent t d now) = now
   \<and> (\<not> IsZero now \<longrightarrow> \<not> IsZero (Event_Timestamp (NewEvent t d now)))
   \<and> Event_AggregateType (NewEvent t d now) = []
   \<and> Event_AggregateID (NewEvent t d now) = []
   \<and> Event_String (NewEvent t d now) = t @ ''@0''"
  by (simp add: NewEvent_def Event_EventType_def Event_Data_def Event_Version_def
      Event_Timestamp_def Event_AggregateType_def Event_AggregateID_def Event_String_def
      itoa_def decimal.simps)

text \<open>The event of \<open>TestNewEvent\<close>, created at a clock reading other than the zero instant.\<close>

theorem NewEvent_fields_witness:
  "\<not> IsZero 1
   \<and> Event_EventType (NewEvent TestEventType (TestEventData ''event1'') 1) = ''TestEvent''
   \<and> Event_Data (NewEvent TestEventType (TestEventData ''event1'') 1) = TestEventData ''event1''
   \<and> Event_Version (NewEvent TestEventType (TestEventData ''event1'') 1) = 0
   \<and> \<not> IsZero (Event_Timestamp (NewEvent TestEventType (TestEventData ''event1'') 1))
   \<and> Event_String (NewEvent TestEventType (TestEventData ''event1'') 1) = ''TestEvent@0''"
  using NewEvent_fields [of TestEventType "TestEventData ''event1''" 1]
  by (simp add: IsZero_def TestEventType_def)

section \<open>Versions under ApplyEvent\<close>

text \<open>
  \<open>TestAggregate.ApplyEvent\<close> defers \<open>IncrementVersion\<close>, so every call adds one to the
  version: after the events \<open>es\<close> have been applied to a fresh aggregate, \<open>Version()\<close> is
  their number (as a Go \<open>int\<close>, hence exactly their number below \<open>2 ^ 63\<close>), and the
  versions reached after different numbers of applied events differ.
\<close>

lemma TestAggregate_ApplyEvent_version:
  "AggregateBase.version (TestAggregate.AggregateBase (TestAggregate_ApplyEvent a e))
     = AggregateBase.version (TestAggregate.AggregateBase a) + 1"
  by (simp add: TestAggregate_ApplyEvent_def IncrementVersion_def)

lemma TestAggregate_ApplyEvent_foldl_version:
  "AggregateBase.version (TestAggregate.AggregateBase (foldl TestAggregate_ApplyEvent a es))
     = AggregateBase.version (TestAggregate.AggregateBase a) + of_nat (length es)"
proof (induction es arbitrary: a)
  case Nil
  show ?case by simp
next
  case (Cons e es)
  show ?case
    by (simp add: Cons.IH TestAggregate_ApplyEvent_version)
qed

lemma TestAggregate_Version_after_applies:
  "fst (AggregateBase_Version (TestAggregate.AggregateBase
          (foldl TestAggregate_ApplyEvent (NewTestAggregate i) es))) = of_nat (length es)"
  by (simp add: AggregateBase_Version_def TestAggregate_ApplyEvent_foldl_version
      NewTestAggregate_def NewAggregateBase_def)

lemma sint_of_nat_go_int:
  assumes "n < 2 ^ 63"
  shows "sint (of_nat n :: go_int) = int n"
proof -
  have "sint (of_nat n :: go_int) = signed_take_bit 63 (int n)"
    by (simp add: signed_of_nat)
  also have "\<dots> = int n"
  proof (rule signed_take_bit_int_eq_self)
    show "- (2 ^ 63) \<le> int n" by simp
    have "int n < int (2 ^ 63)" using assms by (simp only: of_nat_less_iff)
    then show "int n < 2 ^ 63" by simp
  qed
  finally show ?thesis .
qed

lemma TestAggregate_Version_counts_applies:
  assumes "length es < 2 ^ 63"
  shows "sint (fst (AggregateBase_Version (TestAggregate.AggregateBase
            (foldl TestAggregate_ApplyEvent (NewTestAggregate i) es)))) = int (length es)"
  using assms by (simp add: TestAggregate_Version_after_applies sint_of_nat_go_int)

lemma TestAggregate_versions_distinct:
  assumes "length es < 2 ^ 63" and "j < k" and "k \<le> length es"
  shows "fst (AggregateBase_Version (TestAggregate.AggregateBase
            (foldl TestAggregate_ApplyEvent (NewTestAggregate i) (take j es))))
       \<noteq> fst (AggregateBase_Version (TestAggregate.AggregateBase
            (foldl TestAggregate_ApplyEvent (NewTestAggregate i) (take k es))))"
proof
  assume eq: "fst (AggregateBase_Version (TestAggregate.AggregateBase
            (foldl TestAggregate_ApplyEvent (NewTestAggregate i) (take j es))))
       = fst (AggregateBase_Version (TestAggregate.AggregateBase
            (foldl TestAggregate_ApplyEvent (NewTestAggregate i) (take k es))))"
  have lj: "length (take j es) = j" and lk: "length (take k es) = k"
    using assms by simp_all
  have "int (length (take j es)) = int (length (take k es))"
    using arg_cong [OF eq, of sint] assms
    by (simp only: TestAggregate_Version_after_applies)
       (simp add: sint_of_nat_go_int)
  then show False using assms lj lk by simp
qed

text \<open>
  Claim C1.  The claim requires \<open>Version()\<close> to be \<open>N\<close> after \<open>N\<close> calls of \<open>ApplyEvent\<close> on
  a fresh aggregate, for every aggregate.  \<open>TestAggregate2.ApplyEvent\<close> records the event
  and never calls \<open>IncrementVersion\<close>: however many events are applied to a fresh
  \<open>TestAggregate2\<close>, its \<open>Version()\<close> is still 0.
\<close>

theorem TestAggregate2_Version_stays_zero:
  "fst (AggregateBase_Version (TestAggregate2.AggregateBase
          (foldl TestAggregate2_ApplyEvent (NewTestAggregate2 i) es))) = 0"
proof -
  have "TestAggregate2.AggregateBase (foldl TestAggregate2_ApplyEvent a es)
          = TestAggregate2.AggregateBase a" for a
    by (induction es arbitrary: a) (simp_all add: TestAggregate2_ApplyEvent_def)
  then show ?thesis
    by (simp add: AggregateBase_Version_def NewTestAggregate2_def NewAggregateBase_def)
qed


section \<open>Rejected commands\<close>

text \<open>
  Claim C3, as amended.  When the command is not a pointer to a \<open>TestCommand\<close>, or is one
  whose content is \<open>"error"\<close>, \<open>TestAggregate.HandleCommand\<close> returns a non-nil error and
  leaves the embedded aggregate base as it was (no event is stored, and the version, the
  aggregate type and the ID are unchanged), and \<open>appliedEvent\<close> is unchanged; the call
  is recorded all the same: \<open>dispatchedCommand\<close> becomes the command and \<open>numHandled\<close>
  grows by one.
\<close>

theorem TestAggregate_HandleCommand_rejected:
  assumes "\<forall>c. command = PtrTestCommand c \<longrightarrow> TestCommand.Content c = ''error''"
  shows "fst (TestAggregate_HandleCommand a command now) \<noteq> None
   \<and> TestAggregate.AggregateBase (snd (TestAggregate_HandleCommand a command now))
       = TestAggregate.AggregateBase a
   \<and> fst (UncommittedEvents (TestAggregate.AggregateBase
            (snd (TestAggregate_HandleCommand a command now))))
       = fst (UncommittedEvents (TestAggregate.AggregateBase a))
   \<and> fst (AggregateBase_Version (TestAggregate.AggregateBase
            (snd (TestAggregate_HandleCommand a command now))))
       = fst (AggregateBase_Version (TestAggregate.AggregateBase a))
   \<and> TestAggregate.appliedEvent (snd (TestAggregate_HandleCommand a command now))
       = TestAggregate.appliedEvent a
   \<and> TestAggregate.dispatchedCommand (snd (TestAggregate_HandleCommand a command now))
       = Some command
   \<and> TestAggregate.numHandled (snd (TestAggregate_HandleCommand a command now))
       = TestAggregate.numHandled a + 1"
  using assms
  by (cases command) (simp_all add: TestAggregate_HandleCommand_def Let_def)

text \<open>
  Two rejected commands on a fresh aggregate: a \<open>TestCommand\<close> with the content
  \<open>"error"\<close>, and a command of a type that the aggregate does not handle.
\<close>

theorem TestAggregate_HandleCommand_rejected_witness:
  "fst (TestAggregate_HandleCommand (NewTestAggregate ''id1'')
            (PtrTestCommand \<lparr>TestCommand.TestID = ''id1'', Content = ''error''\<rparr>) 1)
       = Some (errors_New ''command error'')
   \<and> TestAggregate.AggregateBase (snd (TestAggregate_HandleCommand (NewTestAggregate ''id1'')
            (PtrTestCommand \<lparr>TestCommand.TestID = ''id1'', Content = ''error''\<rparr>) 1))
       = NewAggregateBase TestAggregateType ''id1''
   \<and> TestAggregate.numHandled (snd (TestAggregate_HandleCommand (NewTestAggregate ''id1'')
            (PtrTestCommand \<lparr>TestCommand.TestID = ''id1'', Content = ''error''\<rparr>) 1))
       = 1
   \<and> fst (TestAggregate_HandleCommand (NewTestAggregate ''id1'')
            (PtrTestCommand2 \<lparr>TestCommand2.TestID = ''id1'', Content = ''command1''\<rparr>) 1)
       = Some (errors_New ''couldn't handle command'')
   \<and> TestAggregate.AggregateBase (snd (TestAggregate_HandleCommand (NewTestAggregate ''id1'')
            (PtrTestCommand2 \<lparr>TestCommand2.TestID = ''id1'', Content = ''command1''\<rparr>) 1))
       = NewAggregateBase TestAggregateType ''id1''"
proof -
  let ?cmd = "PtrTestCommand \<lparr>TestCommand.TestID = ''id1'', Content = ''error''\<rparr>"
  let ?cmd2 = "PtrTestCommand2 \<lparr>TestCommand2.TestID = ''id1'', Content = ''command1''\<rparr>"
  have h: "\<forall>c. ?cmd = PtrTestCommand c \<longrightarrow> TestCommand.Content c = ''error''"
    by auto
  have h2: "\<forall>c. ?cmd2 = PtrTestCommand c \<longrightarrow> TestCommand.Content c = ''error''"
    by simp
  have e: "fst (TestAggregate_HandleCommand (NewTestAggregate ''id1'') ?cmd 1)
             = Some (errors_New ''command error'')"
    by (simp add: TestAggregate_HandleCommand_def)
  have e2: "fst (TestAggregate_HandleCommand (NewTestAggregate ''id1'') ?cmd2 1)
             = Some (errors_New ''couldn't handle command'')"
    by (simp add: TestAggregate_HandleCommand_def)
  show ?thesis
    using e e2
      TestAggregate_HandleCommand_rejected [OF h, of "NewTestAggregate ''id1''" 1]
      TestAggregate_HandleCommand_rejected [OF h2, of "NewTestAggregate ''id1''" 1]
    by (simp add: NewTestAggregate_def)
qed

text \<open>
  Claim C3, as stated, fails: on a fresh \<open>TestAggregate\<close> the command
  \<open>&TestCommand{"id1", "error"}\<close> is rejected with an error, yet \<open>numHandled\<close> and
  \<open>dispatchedCommand\<close> have changed, so the aggregate is not in the state it was in.
\<close>

theorem TestAggregate_HandleCommand_mutates:
  "fst (TestAggregate_HandleCommand (NewTestAggregate ''id1'')
          (PtrTestCommand \<lparr>TestCommand.TestID = ''id1'', Content = ''error''\<rparr>) 1) \<noteq> None
   \<and> TestAggregate.numHandled (snd (TestAggregate_HandleCommand (NewTestAggregate ''id1'')
          (PtrTestCommand \<lparr>TestCommand.TestID = ''id1'', Content = ''error''\<rparr>) 1))
       \<noteq> TestAggregate.numHandled (NewTestAggregate ''id1'')
   \<and> TestAggregate.dispatchedCommand (snd (TestAggregate_HandleCommand (NewTestAggregate ''id1'')
          (PtrTestCommand \<lparr>TestCommand.TestID = ''id1'', Content = ''error''\<rparr>) 1))
       \<noteq> TestAggregate.dispatchedCommand (NewTestAggregate ''id1'')
   \<and> snd (TestAggregate_HandleCommand (NewTestAggregate ''id1'')
          (PtrTestCommand \<lparr>TestCommand.TestID = ''id1'', Content = ''error''\<rparr>) 1)
       \<noteq> NewTestAggregate ''id1''"
  by (simp add: TestAggregate_HandleCommand_def NewTestAggregate_def)

text \<open>\<open>TestAggregate2.HandleCommand\<close> rejects in the same way, and an accepted command
  stores one event.\<close>

lemma TestAggregate2_HandleCommand_rejected:
  assumes "\<forall>c. command = PtrTestCommand2 c \<longrightarrow> TestCommand2.Content c = ''error''"
  shows "fst (TestAggregate2_HandleCommand a command now) \<noteq> None
   \<and> snd (TestAggregate2_HandleCommand a command now)
       = a\<lparr>TestAggregate2.dispatchedCommand := Some command,
           TestAggregate2.numHandled := TestAggregate2.numHandled a + 1\<rparr>"
  using assms
  by (cases command) (simp_all add: TestAggregate2_HandleCommand_def Let_def)

lemma TestAggregate_HandleCommand_accepted:
  assumes "TestCommand.Content c \<noteq> ''error''"
  shows "TestAggregate_HandleCommand a (PtrTestCommand c) now =
     (None, a\<lparr>TestAggregate.dispatchedCommand := Some (PtrTestCommand c),
              TestAggregate.numHandled := TestAggregate.numHandled a + 1,
              TestAggregate.AggregateBase :=
                StoreEvent (TestAggregate.AggregateBase a)
                  (fst (AggregateBase_NewEvent (TestAggregate.AggregateBase a) TestEventType
                         (TestEventData (TestCommand.Content c)) now))\<rparr>)"
  using assms
  by (simp add: TestAggregate_HandleCommand_def Let_def AggregateBase_NewEvent_def
      NewEvent_def AggregateBase_Version_def)

section \<open>Properties of the registry\<close>

text \<open>
  Claim C4.  \<open>RegisterEventData\<close> with the empty event type panics and stores nothing, so
  no lookup sees an entry for it.  The second of two calls with the same event type
  panics and leaves the registry as the first call left it; when the first call
  registered the type (it was not empty and not registered before), the second panic
  reports a duplicate and \<open>CreateEventData\<close> for the type still succeeds with the first
  constructor.
\<close>

theorem RegisterEventData_fail_fast:
  "RegisterEventData reg [] f = (Some RegisterEmptyEventType, reg)
   \<and> CreateEventData (snd (RegisterEventData reg [] f)) [] = CreateEventData reg []
   \<and> CreateEventData (snd (RegisterEventData Map.empty [] f)) [] = Inl ErrEventDataNotRegistered
   \<and> fst (RegisterEventData (snd (RegisterEventData reg t f1)) t f2) \<noteq> None
   \<and> snd (RegisterEventData (snd (RegisterEventData reg t f1)) t f2)
       = snd (RegisterEventData reg t f1)
   \<and> (t \<noteq> [] \<and> reg t = None \<longrightarrow>
        fst (RegisterEventData reg t f1) = None
        \<and> fst (RegisterEventData (snd (RegisterEventData reg t f1)) t f2)
            = Some (RegisterDuplicateTypes t)
        \<and> CreateEventData (snd (RegisterEventData (snd (RegisterEventData reg t f1)) t f2)) t
            = Inr (f1 ()))"
  by (simp add: RegisterEventData_def CreateEventData_def)

text \<open>The two registrations of \<open>TestRegisterEventTwice\<close>, after those of \<open>init\<close>.\<close>

theorem RegisterEventData_fail_fast_witness:
  "TestEventRegisterTwiceType \<noteq> []
   \<and> init_eventDataFactories TestEventRegisterTwiceType = None
   \<and> fst (RegisterEventData init_eventDataFactories TestEventRegisterTwiceType
            (\<lambda>_. TestEventRegisterTwice)) = None
   \<and> fst (RegisterEventData
            (snd (RegisterEventData init_eventDataFactories TestEventRegisterTwiceType
                    (\<lambda>_. TestEventRegisterTwice)))
            TestEventRegisterTwiceType (\<lambda>_. TestEventData ''second''))
       = Some (RegisterDuplicateTypes ''TestEventRegisterTwice'')
   \<and> CreateEventData
        (snd (RegisterEventData
            (snd (RegisterEventData init_eventDataFactories TestEventRegisterTwiceType
                    (\<lambda>_. TestEventRegisterTwice)))
            TestEventRegisterTwiceType (\<lambda>_. TestEventData ''second'')))
        TestEventRegisterTwiceType
       = Inr TestEventRegisterTwice"
proof -
  have h1: "TestEventRegisterTwiceType \<noteq> []"
    by (simp add: TestEventRegisterTwiceType_def)
  have h2: "init_eventDataFactories TestEventRegisterTwiceType = None"
    by (simp add: init_eventDataFactories_def RegisterEventData_def TestEventType_def
        TestEvent2Type_def TestEventRegisterTwiceType_def)
  have "fst (RegisterEventData init_eventDataFactories TestEventRegisterTwiceType
            (\<lambda>_. TestEventRegisterTwice)) = None
   \<and> fst (RegisterEventData
            (snd (RegisterEventData init_eventDataFactories TestEventRegisterTwiceType
                    (\<lambda>_. TestEventRegisterTwice)))
            TestEventRegisterTwiceType (\<lambda>_. TestEventData ''second''))
       = Some (RegisterDuplicateTypes TestEventRegisterTwiceType)
   \<and> CreateEventData
        (snd (RegisterEventData
            (snd (RegisterEventData init_eventDataFactories TestEventRegisterTwiceType
                    (\<lambda>_. TestEventRegisterTwice)))
            TestEventRegisterTwiceType (\<lambda>_. TestEventData ''second'')))
        TestEventRegisterTwiceType
       = Inr TestEventRegisterTwice"
    using h1 h2
      RegisterEventData_fail_fast [of init_eventDataFactories "\<lambda>_. TestEventRegisterTwice"
        TestEventRegisterTwiceType "\<lambda>_. TestEventRegisterTwice" "\<lambda>_. TestEventData ''second''"]
    by blast
  then show ?thesis
    using h1 h2 by (simp add: TestEventRegisterTwiceType_def)
qed

lemma init_eventDataFactories_eq:
  "init_eventDataFactories =
     [TestEventType \<mapsto> (\<lambda>_. TestEventData []), TestEvent2Type \<mapsto> (\<lambda>_. TestEvent2Data [])]"
  by (simp add: init_eventDataFactories_def RegisterEventData_def TestEventType_def
      TestEvent2Type_def)

text \<open>
  Claim C5, as amended.  For an event type that is not registered, \<open>CreateEventData\<close>
  returns the error \<open>ErrEventDataNotRegistered\<close> and no payload.  For a registered one it
  returns, with no error, the payload that a call of the registered constructor builds,
  also right after the registration.  That payload is the zero value of its struct
  whenever the constructor builds the zero value, as the constructors that \<open>init\<close>
  registers do.
\<close>

theorem CreateEventData_result:
  "(reg t = None \<longrightarrow> CreateEventData reg t = Inl ErrEventDataNotRegistered)
   \<and> (\<forall>f. reg t = Some f \<longrightarrow> CreateEventData reg t = Inr (f ()))
   \<and> (\<forall>f. t \<noteq> [] \<and> reg t = None \<longrightarrow>
         CreateEventData (snd (RegisterEventData reg t f)) t = Inr (f ()))
   \<and> (\<forall>f. regE t = Some f \<and> zero_valued (f ()) \<longrightarrow>
         (\<exists>d. CreateEventData regE t = Inr d \<and> zero_valued d))
   \<and> (\<forall>d. CreateEventData init_eventDataFactories t = Inr d \<longrightarrow> zero_valued d)"
  by (auto simp add: CreateEventData_def RegisterEventData_def init_eventDataFactories_eq
      zero_valued_def split: if_splits)

text \<open>The lookups of \<open>TestCreateEventData\<close>, and one of a type that \<open>init\<close> registers.\<close>

theorem CreateEventData_result_witness:
  "init_eventDataFactories TestEventRegisterType = None
   \<and> TestEventRegisterType \<noteq> []
   \<and> CreateEventData init_eventDataFactories TestEventRegisterType = Inl ErrEventDataNotRegistered
   \<and> CreateEventData
        (snd (RegisterEventData init_eventDataFactories TestEventRegisterType
                (\<lambda>_. TestEventRegister)))
        TestEventRegisterType = Inr TestEventRegister
   \<and> init_eventDataFactories TestEventType = Some (\<lambda>_. TestEventData [])
   \<and> CreateEventData init_eventDataFactories TestEventType = Inr (TestEventData [])
   \<and> zero_valued (TestEventData [])"
proof -
  have h1: "init_eventDataFactories TestEventRegisterType = None"
    by (simp add: init_eventDataFactories_eq TestEventType_def TestEvent2Type_def
        TestEventRegisterType_def)
  have h2: "TestEventRegisterType \<noteq> []"
    by (simp add: TestEventRegisterType_def)
  have h3: "init_eventDataFactories TestEventType = Some (\<lambda>_. TestEventData [])"
    by (simp add: init_eventDataFactories_eq TestEventType_def TestEvent2Type_def)
  have z: "zero_valued (TestEventData [])"
    by (simp add: zero_valued_def)
  show ?thesis
    using h1 h2 h3 z
      CreateEventData_result [where reg = init_eventDataFactories
        and regE = init_eventDataFactories and t = TestEventRegisterType]
      CreateEventData_result [where reg = init_eventDataFactories
        and regE = init_eventDataFactories and t = TestEventType]
    by auto
qed

text \<open>
  Claim C5, as stated, fails: \<open>RegisterEventData\<close> accepts any constructor.  After the
  registrations of \<open>init\<close>, registering for \<open>TestEventRegisterType\<close> a constructor that builds
  \<open>&TestEventData{"a"}\<close> succeeds, and \<open>CreateEventData\<close> for that type then returns this
  payload with no error, which is not the zero value of its struct.
\<close>

theorem CreateEventData_nonzero_payload:
  "fst (RegisterEventData init_eventDataFactories TestEventRegisterType
          (\<lambda>_. TestEventData ''a'')) = None
   \<and> CreateEventData
        (snd (RegisterEventData init_eventDataFactories TestEventRegisterType
                (\<lambda>_. TestEventData ''a'')))
        TestEventRegisterType = Inr (TestEventData ''a'')
   \<and> \<not> zero_valued (TestEventData ''a'')"
  by (simp add: RegisterEventData_def CreateEventData_def init_eventDataFactories_eq
      TestEventType_def TestEvent2Type_def TestEventRegisterType_def zero_valued_def)

end
